theory Spec2Isabelle
  imports Main "HOL-Library.Word"
begin

unbundle bit_operations_syntax

section \<open>The GAP profile plugin (profiles/gap/gas.c)\<close>

text \<open>
  The plugin keeps one \<open>struct gas\<close> per probed device in the global list \<open>devices\<close>,
  reads the Device Name and Appearance characteristics of the peer's GAP service and
  hands the results to the device registry. Everything outside the file (GLib, the C
  library, the GATT database and client, the device registry, the log) is either
  modelled by its documented contract or recorded as an event in a trace.
\<close>

subsection \<open>Data\<close>

type_synonym byte = "8 word"
type_synonym uint16_t = "16 word"

text \<open>Pointers to objects owned by other modules: only their identity matters. A
  pointer field is an option, \<open>None\<close> being \<open>NULL\<close>.\<close>

type_synonym btd_device = nat
type_synonym gatt_db = nat
type_synonym bt_gatt_client = nat
type_synonym gatt_db_attribute = nat

text \<open>\<open>struct gas\<close>, field by field.\<close>

record gas =
  device :: "btd_device option"
  db :: "gatt_db option"
  db_id :: nat
  client :: "bt_gatt_client option"
  attr :: "gatt_db_attribute option"

text \<open>Modelled from the spec: \<open>struct btd_service\<close> is declared in src/service.h, which is
  not among the sources. The spec writes the driver calls as Probe(device),
  Remove(device) and Accept(device): the plugin asks a service for its device only,
  with \<open>btd_service_get_device\<close>.\<close>

datatype btd_service = Btd_service (btd_service_get_device: btd_device)

text \<open>Modelled from the spec: \<open>bt_uuid_t\<close> and its functions live in lib/uuid.c, which
  is not among the sources. The spec speaks of a service "whose UUID equals the
  well-known GAP service UUID (16-bit UUID 0x1800)"; a UUID is given in 16, 32 or 128
  bits, and two UUIDs are compared after both are extended to 128 bits over the
  Bluetooth base UUID.\<close>

datatype bt_uuid = UUID16 "16 word" | UUID32 "32 word" | UUID128 "128 word"

definition bluetooth_base_uuid :: "128 word" where
  "bluetooth_base_uuid = 0x0000000000001000800000805F9B34FB"

fun bt_uuid_to_uuid128 :: "bt_uuid \<Rightarrow> 128 word" where
  "bt_uuid_to_uuid128 (UUID16 v) = bluetooth_base_uuid OR push_bit 96 (ucast v)"
| "bt_uuid_to_uuid128 (UUID32 v) = bluetooth_base_uuid OR push_bit 96 (ucast v)"
| "bt_uuid_to_uuid128 (UUID128 v) = v"

definition bt_uuid16_create :: "uint16_t \<Rightarrow> bt_uuid" where
  "bt_uuid16_create v = UUID16 v"

text \<open>The result is that of a \<open>memcmp\<close>: zero exactly for equal UUIDs; the plugin only
  tests it against zero.\<close>

definition bt_uuid_cmp :: "bt_uuid \<Rightarrow> bt_uuid \<Rightarrow> int" where
  "bt_uuid_cmp u1 u2 =
     (if bt_uuid_to_uuid128 u1 = bt_uuid_to_uuid128 u2 then 0
      else if bt_uuid_to_uuid128 u1 < bt_uuid_to_uuid128 u2 then - 1 else 1)"

definition GAP_UUID16 :: uint16_t where
  "GAP_UUID16 = 0x1800"

text \<open>Modelled from the spec: the two characteristic UUIDs are macros of lib/uuid.h,
  which is not among the sources; the spec calls them "the standard GATT-assigned
  values", which are these.\<close>

definition GATT_CHARAC_DEVICE_NAME :: uint16_t where
  "GATT_CHARAC_DEVICE_NAME = 0x2A00"

definition GATT_CHARAC_APPEARANCE :: uint16_t where
  "GATT_CHARAC_APPEARANCE = 0x2A01"

text \<open>Modelled from the spec: \<open>HCI_MAX_NAME_LENGTH\<close> is a macro of lib/hci.h, which is not
  among the sources; the spec only says "a fixed maximum length". BlueZ defines it as
  248. The theorems below hold whatever the number is; only their instances compute
  with it.\<close>

definition HCI_MAX_NAME_LENGTH :: nat where
  "HCI_MAX_NAME_LENGTH = 248"

subsection \<open>What the plugin does to the outside world\<close>

text \<open>Every call that acts on another module (the log, the device registry, the GATT
  client and database, the reference counts, the profile registry) is an event; the
  trace is the list of events in the order of the calls. A log line is recorded by its
  format string.\<close>

datatype event =
    DBG string
  | ERROR string
  | Btd_device_device_set_name "btd_device option" "byte list"
  | Device_set_appearance "btd_device option" uint16_t
  | Bt_gatt_client_read_long_value "bt_gatt_client option" uint16_t uint16_t
  | Bt_gatt_client_read_value "bt_gatt_client option" uint16_t
  | Gatt_db_register gatt_db
  | Gatt_db_unregister "gatt_db option" nat
  | Gatt_db_ref gatt_db
  | Gatt_db_unref "gatt_db option"
  | Bt_gatt_client_ref bt_gatt_client
  | Bt_gatt_client_unref "bt_gatt_client option"
  | Btd_device_ref btd_device
  | Btd_device_unref "btd_device option"
  | Btd_profile_register
  | Btd_profile_unregister

text \<open>What the other modules answer when the plugin asks: the state of the GATT database
  and client at the time of the call.\<close>

record env =
  btd_device_get_gatt_db :: "btd_device \<Rightarrow> gatt_db"
  btd_device_get_gatt_client :: "btd_device \<Rightarrow> bt_gatt_client"
  bt_gatt_client_is_ready :: "bt_gatt_client option \<Rightarrow> bool"
  bt_gatt_client_read_long_value :: "bt_gatt_client option \<Rightarrow> uint16_t \<Rightarrow> bool"
  bt_gatt_client_read_value :: "bt_gatt_client option \<Rightarrow> uint16_t \<Rightarrow> bool"
  gatt_db_register :: "gatt_db \<Rightarrow> nat"
  gatt_db_services :: "gatt_db \<Rightarrow> gatt_db_attribute list"
  gatt_db_attribute_get_service_uuid :: "gatt_db_attribute \<Rightarrow> bt_uuid"
  gatt_db_service_chars :: "gatt_db_attribute \<Rightarrow> gatt_db_attribute list"
  gatt_db_attribute_get_char_data :: "gatt_db_attribute \<Rightarrow> (uint16_t \<times> bt_uuid) option"

subsection \<open>C strings and the library calls of \<open>name2utf8\<close>\<close>

text \<open>A buffer is the list of its bytes. The C string held by a buffer is what stands
  before the first zero byte.\<close>

definition cstring :: "byte list \<Rightarrow> byte list" where
  "cstring buf = takeWhile (\<lambda>c. c \<noteq> 0) buf"

text \<open>\<open>memset (buf, 0, n)\<close> on a buffer of \<open>n\<close> bytes.\<close>

definition memset0 :: "nat \<Rightarrow> byte list" where
  "memset0 n = replicate n 0"

text \<open>\<open>strncpy (dest, src, n)\<close>: the first \<open>n\<close> bytes of \<open>dest\<close> become the string of
  \<open>src\<close> cut at \<open>n\<close> bytes, padded with zero bytes; the rest of \<open>dest\<close> is kept. The caller
  passes a source with \<open>n\<close> readable bytes or a terminator before.\<close>

definition strncpy :: "byte list \<Rightarrow> byte list \<Rightarrow> nat \<Rightarrow> byte list" where
  "strncpy dest src n =
     (let s = cstring (take n src) in s @ replicate (n - length s) 0 @ drop n dest)"

text \<open>\<open>g_strndup (str, n)\<close> allocates \<open>n + 1\<close> bytes, copies with \<open>strncpy\<close> and terminates:
  the string returned is the one held by that buffer.\<close>

definition g_strndup :: "byte list \<Rightarrow> nat \<Rightarrow> byte list" where
  "g_strndup str n = cstring (strncpy (memset0 (n + 1)) str n)"

definition g_strdup :: "byte list \<Rightarrow> byte list" where
  "g_strdup buf = cstring buf"

text \<open>\<open>isascii (c)\<close> is \<open>((c) & ~0x7f) == 0\<close>; on a \<open>char\<close> promoted to \<open>int\<close>, signed or
  not, that is bit 7 of the byte.\<close>

definition isascii :: "byte \<Rightarrow> bool" where
  "isascii c \<longleftrightarrow> c AND NOT 0x7F = 0"

text \<open>GLib's \<open>g_ascii_isspace\<close>: space, tab, line feed, form feed, carriage return.\<close>

definition g_ascii_isspace :: "byte \<Rightarrow> bool" where
  "g_ascii_isspace c \<longleftrightarrow> c = 0x20 \<or> c = 0x09 \<or> c = 0x0A \<or> c = 0x0C \<or> c = 0x0D"

text \<open>\<open>g_strchug\<close> moves the string to the left over its leading white space;
  \<open>g_strchomp\<close> overwrites the trailing white space with terminators; \<open>g_strstrip\<close> is the
  macro \<open>g_strchomp (g_strchug (string))\<close>. They work on the string held by the buffer.\<close>

definition g_strchug :: "byte list \<Rightarrow> byte list" where
  "g_strchug buf = dropWhile g_ascii_isspace (cstring buf)"

definition g_strchomp :: "byte list \<Rightarrow> byte list" where
  "g_strchomp buf = rev (dropWhile g_ascii_isspace (rev (cstring buf)))"

definition g_strstrip :: "byte list \<Rightarrow> byte list" where
  "g_strstrip buf = g_strchomp (g_strchug buf)"

text \<open>GLib's \<open>g_utf8_validate (str, max_len, NULL)\<close> with \<open>max_len \<ge> 0\<close>: the scan of
  \<open>fast_validate_len\<close> must reach \<open>str + max_len\<close>. It stops before at a zero byte, at a
  lead byte that is none, at a sequence cut by \<open>max_len\<close>, at a byte that is no
  continuation, at an overlong form and at a value that is no Unicode scalar (above
  0x10FFFF or a surrogate).\<close>

definition CONTINUATION_CHAR :: "byte \<Rightarrow> bool" where
  "CONTINUATION_CHAR c \<longleftrightarrow> c AND 0xC0 = 0x80"

definition UNICODE_VALID :: "32 word \<Rightarrow> bool" where
  "UNICODE_VALID v \<longleftrightarrow> v < 0x110000 \<and> v AND 0xFFFFF800 \<noteq> 0xD800"

definition utf8_val3 :: "byte \<Rightarrow> byte \<Rightarrow> byte \<Rightarrow> 32 word" where
  "utf8_val3 b c1 c2 =
     push_bit 6 (push_bit 6 (ucast (b AND 0x0F)) OR ucast (c1 AND 0x3F)) OR ucast (c2 AND 0x3F)"

definition utf8_val4 :: "byte \<Rightarrow> byte \<Rightarrow> byte \<Rightarrow> byte \<Rightarrow> 32 word" where
  "utf8_val4 b c1 c2 c3 =
     push_bit 6 (push_bit 6 (push_bit 6 (ucast (b AND 0x07)) OR ucast (c1 AND 0x3F))
       OR ucast (c2 AND 0x3F)) OR ucast (c3 AND 0x3F)"

fun fast_validate_len :: "byte list \<Rightarrow> bool" where
  "fast_validate_len [] = True"
| "fast_validate_len (b # bs) =
     (if b = 0 then False
      else if b < 128 then fast_validate_len bs
      else if b AND 0xE0 = 0xC0 then
        (case bs of
           c1 # rest \<Rightarrow> b AND 0x1E \<noteq> 0 \<and> CONTINUATION_CHAR c1 \<and> fast_validate_len rest
         | _ \<Rightarrow> False)
      else if b AND 0xF0 = 0xE0 then
        (case bs of
           c1 # c2 # rest \<Rightarrow>
             CONTINUATION_CHAR c1 \<and> CONTINUATION_CHAR c2 \<and>
             \<not> utf8_val3 b c1 c2 < push_bit 11 1 \<and> UNICODE_VALID (utf8_val3 b c1 c2) \<and>
             fast_validate_len rest
         | _ \<Rightarrow> False)
      else if b AND 0xF8 = 0xF0 then
        (case bs of
           c1 # c2 # c3 # rest \<Rightarrow>
             CONTINUATION_CHAR c1 \<and> CONTINUATION_CHAR c2 \<and> CONTINUATION_CHAR c3 \<and>
             \<not> utf8_val4 b c1 c2 c3 < push_bit 16 1 \<and> UNICODE_VALID (utf8_val4 b c1 c2 c3) \<and>
             fast_validate_len rest
         | _ \<Rightarrow> False)
      else False)"

definition g_utf8_validate :: "byte list \<Rightarrow> nat \<Rightarrow> bool" where
  "g_utf8_validate str max_len = fast_validate_len (take max_len str)"

subsection \<open>\<open>name2utf8\<close>\<close>

text \<open>The loop of \<open>name2utf8\<close> walks the buffer up to the terminator and overwrites every
  byte that is not ASCII with a space.\<close>

fun replace_non_ascii :: "byte list \<Rightarrow> byte list" where
  "replace_non_ascii [] = []"
| "replace_non_ascii (c # cs) =
     (if c = 0 then c # cs
      else (if \<not> isascii c then 0x20 else c) # replace_non_ascii cs)"

definition sizeof_utf8_name :: nat where
  "sizeof_utf8_name = HCI_MAX_NAME_LENGTH + 2"

definition name2utf8 :: "byte list \<Rightarrow> uint16_t \<Rightarrow> byte list" where
  "name2utf8 name len =
     (if g_utf8_validate name (unat len) then g_strndup name (unat len)
      else
        let len' = min (unat len) (sizeof_utf8_name - 1);
            utf8_name = memset0 sizeof_utf8_name;
            utf8_name = strncpy utf8_name name len';
            utf8_name = replace_non_ascii utf8_name;
            utf8_name = g_strstrip utf8_name
        in g_strdup utf8_name)"

subsection \<open>The read completions\<close>

text \<open>A callback receives the handler its \<open>user_data\<close> points to and the trace so far,
  and returns both as it leaves them. \<open>val\<close> is the buffer the GATT client passes and
  \<open>len\<close> the length it reports; the client passes at least \<open>len\<close> readable bytes.\<close>

type_synonym cb_state = "gas \<times> event list"

definition read_device_name_cb ::
    "bool \<Rightarrow> byte \<Rightarrow> byte list \<Rightarrow> uint16_t \<Rightarrow> cb_state \<Rightarrow> cb_state" where
  "read_device_name_cb success att_ecode val len s =
     (case s of (g, tr) \<Rightarrow>
        if \<not> success then
          (g, tr @ [DBG ''Reading device name failed with ATT errror: %u''])
        else if len = 0 then (g, tr)
        else
          let name = name2utf8 val len
          in (g, tr @ [DBG ''GAP Device Name: %s'',
                       Btd_device_device_set_name (device g) name]))"

text \<open>Modelled from the spec: \<open>get_le16\<close> is defined in src/shared/util.h, which is not
  among the sources; the spec says that the completion "decodes the two bytes as a
  little-endian 16-bit unsigned integer". The callback calls it after it has checked
  that the length is 2, so both bytes are there.\<close>

definition get_le16 :: "byte list \<Rightarrow> uint16_t" where
  "get_le16 p = ucast (p ! 0) OR push_bit 8 (ucast (p ! 1))"

definition read_appearance_cb ::
    "bool \<Rightarrow> byte \<Rightarrow> byte list \<Rightarrow> uint16_t \<Rightarrow> cb_state \<Rightarrow> cb_state" where
  "read_appearance_cb success att_ecode val len s =
     (case s of (g, tr) \<Rightarrow>
        if \<not> success then
          (g, tr @ [DBG ''Reading appearance failed with ATT error: %u''])
        else if len \<noteq> 2 then (g, tr @ [DBG ''Malformed appearance value''])
        else
          let appearance = get_le16 val
          in (g, tr @ [DBG ''GAP Appearance: 0x%04x'',
                       Device_set_appearance (device g) appearance]))"

subsection \<open>Handling the GAP service\<close>

definition handle_device_name :: "env \<Rightarrow> uint16_t \<Rightarrow> cb_state \<Rightarrow> cb_state" where
  "handle_device_name e value_handle s =
     (case s of (g, tr) \<Rightarrow>
        if \<not> bt_gatt_client_read_long_value e (client g) value_handle then
          (g, tr @ [Bt_gatt_client_read_long_value (client g) value_handle 0,
                    DBG ''Failed to send request to read device name''])
        else (g, tr @ [Bt_gatt_client_read_long_value (client g) value_handle 0]))"

definition handle_appearance :: "env \<Rightarrow> uint16_t \<Rightarrow> cb_state \<Rightarrow> cb_state" where
  "handle_appearance e value_handle s =
     (case s of (g, tr) \<Rightarrow>
        if \<not> bt_gatt_client_read_value e (client g) value_handle then
          (g, tr @ [Bt_gatt_client_read_value (client g) value_handle,
                    DBG ''Failed to send request to read appearance''])
        else (g, tr @ [Bt_gatt_client_read_value (client g) value_handle]))"

definition uuid_cmp :: "uint16_t \<Rightarrow> bt_uuid \<Rightarrow> bool" where
  "uuid_cmp u16 uuid \<longleftrightarrow> bt_uuid_cmp (bt_uuid16_create u16) uuid = 0"

definition handle_characteristic :: "env \<Rightarrow> gatt_db_attribute \<Rightarrow> cb_state \<Rightarrow> cb_state" where
  "handle_characteristic e a s =
     (case s of (g, tr) \<Rightarrow>
        (case gatt_db_attribute_get_char_data e a of
           None \<Rightarrow> (g, tr @ [ERROR ''Failed to obtain characteristic data''])
         | Some (value_handle, uuid) \<Rightarrow>
             if uuid_cmp GATT_CHARAC_DEVICE_NAME uuid then handle_device_name e value_handle s
             else if uuid_cmp GATT_CHARAC_APPEARANCE uuid then handle_appearance e value_handle s
             else (g, tr @ [DBG ''Unsupported characteristic: %s''])))"

text \<open>\<open>gatt_db_service_foreach_char\<close> calls the function on every characteristic of the
  service, in the order of the database, and does nothing on a \<open>NULL\<close> service.\<close>

definition handle_gap_service :: "env \<Rightarrow> cb_state \<Rightarrow> cb_state" where
  "handle_gap_service e s =
     (case attr (fst s) of
        None \<Rightarrow> s
      | Some a \<Rightarrow> fold (handle_characteristic e) (gatt_db_service_chars e a) s)"

definition foreach_gap_service :: "env \<Rightarrow> gatt_db_attribute \<Rightarrow> cb_state \<Rightarrow> cb_state" where
  "foreach_gap_service e a s =
     (case s of (g, tr) \<Rightarrow>
        if attr g \<noteq> None then
          (g, tr @ [ERROR ''More than one GAP service exists for this device''])
        else handle_gap_service e (g\<lparr>attr := Some a\<rparr>, tr))"

definition service_added :: "env \<Rightarrow> gatt_db_attribute \<Rightarrow> cb_state \<Rightarrow> cb_state" where
  "service_added e a s =
     (case s of (g, tr) \<Rightarrow>
        if \<not> bt_gatt_client_is_ready e (client g) then (g, tr)
        else if bt_uuid_cmp (gatt_db_attribute_get_service_uuid e a)
                  (bt_uuid16_create GAP_UUID16) \<noteq> 0 then (g, tr)
        else if attr g \<noteq> None then
          (g, tr @ [ERROR ''More than one GAP service added to device''])
        else handle_gap_service e (g\<lparr>attr := Some a\<rparr>, tr @ [DBG ''GAP service added'']))"

definition service_removed :: "gatt_db_attribute \<Rightarrow> cb_state \<Rightarrow> cb_state" where
  "service_removed a s =
     (case s of (g, tr) \<Rightarrow>
        if attr g \<noteq> Some a then (g, tr)
        else (g\<lparr>attr := None\<rparr>, tr @ [DBG ''GAP service removed'']))"

subsection \<open>The driver: probe, remove, accept\<close>

text \<open>The global list \<open>devices\<close> holds pointers to handlers, each from its own \<open>g_new0\<close> and
  freed when it leaves the list, so no two nodes share a handler: the list is modelled
  as the list of the handlers themselves, and a write through \<open>l->data\<close> as the
  replacement of that node's handler.\<close>

record state =
  devices :: "gas list"
  trace :: "event list"

definition cmp_device :: "gas \<Rightarrow> btd_device \<Rightarrow> int" where
  "cmp_device g d = (if device g = Some d then 0 else - 1)"

text \<open>\<open>g_slist_find_custom\<close> returns the first node on which the function returns 0, that
  is the rest of the list from that node on, and \<open>NULL\<close> (the empty list) when there
  is none.\<close>

definition g_slist_find_custom :: "'a list \<Rightarrow> 'b \<Rightarrow> ('a \<Rightarrow> 'b \<Rightarrow> int) \<Rightarrow> 'a list" where
  "g_slist_find_custom list data func = dropWhile (\<lambda>x. func x data \<noteq> 0) list"

text \<open>The nodes before the one \<open>g_slist_find_custom\<close> returns.\<close>

definition g_slist_before :: "'a list \<Rightarrow> 'b \<Rightarrow> ('a \<Rightarrow> 'b \<Rightarrow> int) \<Rightarrow> 'a list" where
  "g_slist_before list data func = takeWhile (\<lambda>x. func x data \<noteq> 0) list"

definition g_slist_append :: "'a list \<Rightarrow> 'a \<Rightarrow> 'a list" where
  "g_slist_append list data = list @ [data]"

text \<open>\<open>g_slist_remove\<close> unlinks the first node that holds the element. The driver
  passes the handler of the node it has just found.\<close>

definition g_slist_remove :: "'a list \<Rightarrow> 'a \<Rightarrow> 'a list" where
  "g_slist_remove list data = remove1 data list"

text \<open>\<open>g_new0\<close> returns zeroed memory and aborts the process when there is none, so the
  \<open>NULL\<close> test after it never fires.\<close>

definition g_new0_gas :: gas where
  "g_new0_gas = \<lparr>device = None, db = None, db_id = 0, client = None, attr = None\<rparr>"

definition gas_free :: "gas \<Rightarrow> event list" where
  "gas_free g =
     [Gatt_db_unregister (db g) (db_id g), Gatt_db_unref (db g),
      Bt_gatt_client_unref (client g), Btd_device_unref (device g)]"

definition gap_init :: "int \<times> state" where
  "gap_init = (0, \<lparr>devices = [], trace = [Btd_profile_register]\<rparr>)"

definition gap_exit :: "state \<Rightarrow> state" where
  "gap_exit st = st\<lparr>trace := trace st @ [Btd_profile_unregister]\<rparr>"

definition gap_driver_probe :: "btd_service \<Rightarrow> state \<Rightarrow> int \<times> state" where
  "gap_driver_probe service st =
     (let dev = btd_service_get_device service;
          tr = trace st @ [DBG ''GAP profile probe (%s)''];
          l = g_slist_find_custom (devices st) dev cmp_device
      in if l \<noteq> [] then
           (- 1, st\<lparr>trace := tr @ [ERROR ''Profile probed twice for the same device!'']\<rparr>)
         else
           let g = g_new0_gas\<lparr>device := Some dev\<rparr>
           in (0, st\<lparr>devices := g_slist_append (devices st) g,
                     trace := tr @ [Btd_device_ref dev]\<rparr>))"

definition gap_driver_remove :: "btd_service \<Rightarrow> state \<Rightarrow> state" where
  "gap_driver_remove service st =
     (let dev = btd_service_get_device service;
          tr = trace st @ [DBG ''GAP profile remove (%s)''];
          l = g_slist_find_custom (devices st) dev cmp_device
      in if l = [] then st\<lparr>trace := tr @ [ERROR ''GAP service not handled by profile'']\<rparr>
         else
           let g = hd l
           in st\<lparr>devices := g_slist_remove (devices st) g, trace := tr @ gas_free g\<rparr>)"

text \<open>\<open>gatt_db_foreach_service\<close> with a UUID calls the function on every service of the
  database whose UUID compares equal to it, in the order of the database.\<close>

definition gatt_db_foreach_service :: "env \<Rightarrow> gatt_db \<Rightarrow> bt_uuid \<Rightarrow> gatt_db_attribute list" where
  "gatt_db_foreach_service e d uuid =
     filter (\<lambda>a. bt_uuid_cmp (gatt_db_attribute_get_service_uuid e a) uuid = 0)
       (gatt_db_services e d)"

definition gap_driver_accept :: "env \<Rightarrow> btd_service \<Rightarrow> state \<Rightarrow> int \<times> state" where
  "gap_driver_accept e service st =
     (let dev = btd_service_get_device service;
          d = btd_device_get_gatt_db e dev;
          c = btd_device_get_gatt_client e dev;
          tr = trace st @ [DBG ''GAP profile accept (%s)''];
          l = g_slist_find_custom (devices st) dev cmp_device
      in if l = [] then
           (- 1, st\<lparr>trace := tr @ [ERROR ''GAP service not handled by profile'']\<rparr>)
         else
           let g = hd l;
               g1 = g\<lparr>attr := None\<rparr>;
               tr1 = tr @ [Gatt_db_unregister (db g1) (db_id g1), Gatt_db_unref (db g1),
                           Bt_gatt_client_unref (client g1)];
               g2 = g1\<lparr>db := Some d, client := Some c, db_id := gatt_db_register e d\<rparr>;
               tr2 = tr1 @ [Gatt_db_ref d, Bt_gatt_client_ref c, Gatt_db_register d];
               (g3, tr3) = fold (foreach_gap_service e)
                             (gatt_db_foreach_service e d (bt_uuid16_create GAP_UUID16)) (g2, tr2)
           in (0, st\<lparr>devices := g_slist_before (devices st) dev cmp_device @ g3 # tl l,
                     trace := tr3\<rparr>))"

text \<open>The database and the GATT client call back later, with the handler they were
  given at registration: the callback runs on the handler of one node of the list.\<close>

definition run_callback :: "nat \<Rightarrow> (cb_state \<Rightarrow> cb_state) \<Rightarrow> state \<Rightarrow> state" where
  "run_callback i cb st =
     (case cb (devices st ! i, trace st) of
        (g, tr) \<Rightarrow> st\<lparr>devices := (devices st)[i := g], trace := tr\<rparr>)"

text \<open>The states the plugin can be in: \<open>gap_init\<close>, then any sequence of driver calls and
  of callbacks on handlers of the list, whatever the other modules answer.\<close>

inductive reachable :: "state \<Rightarrow> bool" where
  init: "reachable (snd gap_init)"
| probe: "reachable st \<Longrightarrow> reachable (snd (gap_driver_probe service st))"
| remove: "reachable st \<Longrightarrow> reachable (gap_driver_remove service st)"
| accept: "reachable st \<Longrightarrow> reachable (snd (gap_driver_accept e service st))"
| added: "reachable st \<Longrightarrow> i < length (devices st) \<Longrightarrow>
           reachable (run_callback i (service_added e a) st)"
| removed: "reachable st \<Longrightarrow> i < length (devices st) \<Longrightarrow>
           reachable (run_callback i (service_removed a) st)"
| name_read: "reachable st \<Longrightarrow> i < length (devices st) \<Longrightarrow>
           reachable (run_callback i (read_device_name_cb success att_ecode val len) st)"
| appearance_read: "reachable st \<Longrightarrow> i < length (devices st) \<Longrightarrow>
           reachable (run_callback i (read_appearance_cb success att_ecode val len) st)"

subsection \<open>Vocabulary of the properties\<close>

text \<open>The calls into the device registry that a trace holds, and the read requests.\<close>

fun is_registry_call :: "event \<Rightarrow> bool" where
  "is_registry_call (Btd_device_device_set_name d n) = True"
| "is_registry_call (Device_set_appearance d v) = True"
| "is_registry_call ev = False"

definition registry_calls :: "event list \<Rightarrow> event list" where
  "registry_calls tr = filter is_registry_call tr"

fun is_read_request :: "event \<Rightarrow> bool" where
  "is_read_request (Bt_gatt_client_read_long_value c h off) = True"
| "is_read_request (Bt_gatt_client_read_value c h) = True"
| "is_read_request ev = False"

definition read_requests :: "event list \<Rightarrow> event list" where
  "read_requests tr = filter is_read_request tr"

text \<open>The handlers the list holds for a device, and the one the driver finds.\<close>

definition handlers_of :: "state \<Rightarrow> btd_device \<Rightarrow> gas list" where
  "handlers_of st dev = filter (\<lambda>g. device g = Some dev) (devices st)"

definition handler_of :: "state \<Rightarrow> btd_device \<Rightarrow> gas option" where
  "handler_of st dev =
     (case g_slist_find_custom (devices st) dev cmp_device of [] \<Rightarrow> None | g # _ \<Rightarrow> Some g)"

text \<open>The added service is a GAP service: its UUID, in 128 bits, is that of 0x1800.\<close>

definition is_gap_service :: "env \<Rightarrow> gatt_db_attribute \<Rightarrow> bool" where
  "is_gap_service e a \<longleftrightarrow>
     bt_uuid_to_uuid128 (gatt_db_attribute_get_service_uuid e a) =
     bt_uuid_to_uuid128 (UUID16 0x1800)"

text \<open>Valid UTF-8 in the words of the specification, that is in the sense of the
  Unicode standard: a sequence of encoded scalar values (up to 0x10FFFF, no
  surrogate), each in its shortest form. U+0000, encoded as one zero byte, is one of
  them; this is where the notion differs from what \<open>g_utf8_validate\<close> accepts when it
  is given a length.\<close>

fun valid_utf8 :: "byte list \<Rightarrow> bool" where
  "valid_utf8 [] = True"
| "valid_utf8 (b # bs) =
     (if b < 128 then valid_utf8 bs
      else if b AND 0xE0 = 0xC0 then
        (case bs of
           c1 # rest \<Rightarrow> b AND 0x1E \<noteq> 0 \<and> CONTINUATION_CHAR c1 \<and> valid_utf8 rest
         | _ \<Rightarrow> False)
      else if b AND 0xF0 = 0xE0 then
        (case bs of
           c1 # c2 # rest \<Rightarrow>
             CONTINUATION_CHAR c1 \<and> CONTINUATION_CHAR c2 \<and>
             \<not> utf8_val3 b c1 c2 < 0x800 \<and> UNICODE_VALID (utf8_val3 b c1 c2) \<and>
             valid_utf8 rest
         | _ \<Rightarrow> False)
      else if b AND 0xF8 = 0xF0 then
        (case bs of
           c1 # c2 # c3 # rest \<Rightarrow>
             CONTINUATION_CHAR c1 \<and> CONTINUATION_CHAR c2 \<and> CONTINUATION_CHAR c3 \<and>
             \<not> utf8_val4 b c1 c2 c3 < 0x10000 \<and> UNICODE_VALID (utf8_val4 b c1 c2 c3) \<and>
             valid_utf8 rest
         | _ \<Rightarrow> False)
      else False)"

text \<open>What the fallback of \<open>name2utf8\<close> amounts to: a byte from 0x80 on becomes a space,
  and the white space of \<open>g_ascii_isspace\<close> is dropped at both ends.\<close>

definition non_ascii_to_space :: "byte \<Rightarrow> byte" where
  "non_ascii_to_space c = (if c < 0x80 then c else 0x20)"

definition strip_whitespace :: "byte list \<Rightarrow> byte list" where
  "strip_whitespace s = rev (dropWhile g_ascii_isspace (rev (dropWhile g_ascii_isspace s)))"

text \<open>The fallback in the words of the specification: "truncate to a fixed maximum
  length, replace every byte outside the printable ASCII range with a space character,
  then strip leading/trailing whitespace". The printable ASCII range is 0x20 to 0x7E;
  the maximum length is the one of the code.\<close>

definition printable_ascii :: "byte \<Rightarrow> bool" where
  "printable_ascii c \<longleftrightarrow> 0x20 \<le> c \<and> c \<le> 0x7E"

definition non_printable_to_space :: "byte \<Rightarrow> byte" where
  "non_printable_to_space c = (if printable_ascii c then c else 0x20)"

definition name2utf8_spec :: "byte list \<Rightarrow> uint16_t \<Rightarrow> byte list" where
  "name2utf8_spec name len =
     strip_whitespace (map non_printable_to_space
       (take (min (unat len) (HCI_MAX_NAME_LENGTH + 1)) name))"

subsection \<open>An example world\<close>

text \<open>Device 1 has the database 11 with three services: 1 is the GAP service with the
  characteristics 4 (Device Name), 5 (Appearance) and 6 (another one), 2 is the Device
  Information service, 3 carries the GAP UUID in 128 bits. Every other device has a
  database with service 2 only. The handler \<open>example_gas\<close> is bound to a service 9.\<close>

definition example_env :: env where
  "example_env =
     \<lparr>btd_device_get_gatt_db = (\<lambda>dev. 10 + dev),
      btd_device_get_gatt_client = (\<lambda>dev. 20 + dev),
      bt_gatt_client_is_ready = (\<lambda>c. c \<noteq> None),
      bt_gatt_client_read_long_value = (\<lambda>c h. True),
      bt_gatt_client_read_value = (\<lambda>c h. False),
      gatt_db_register = (\<lambda>d. 1),
      gatt_db_services = (\<lambda>d. if d = 11 then [1, 2, 3] else [2]),
      gatt_db_attribute_get_service_uuid =
        (\<lambda>a. if a = 1 then UUID16 0x1800
             else if a = 2 then UUID16 0x180A
             else UUID128 0x0000180000001000800000805F9B34FB),
      gatt_db_service_chars = (\<lambda>a. if a = 1 then [4, 5, 6] else []),
      gatt_db_attribute_get_char_data =
        (\<lambda>a. if a = 4 then Some (3, UUID16 0x2A00)
             else if a = 5 then Some (5, UUID16 0x2A01)
             else if a = 6 then Some (7, UUID16 0x2A04)
             else None)\<rparr>"

definition example_gas :: gas where
  "example_gas = \<lparr>device = Some 2, db = Some 5, db_id = 3, client = Some 6, attr = Some 9\<rparr>"

section \<open>Properties\<close>

subsection \<open>C strings\<close>

lemma cstring_no_zero: "0 \<notin> set (cstring buf)"
  unfolding cstring_def by (induction buf) auto

lemma cstring_id: "0 \<notin> set s \<Longrightarrow> cstring s = s"
  unfolding cstring_def by (induction s) auto

lemma cstring_zeros: "0 \<notin> set s \<Longrightarrow> cstring (s @ replicate k 0) = s"
  unfolding cstring_def by (induction s) (auto simp: takeWhile_replicate)

lemma strncpy_memset0:
  assumes "n \<le> m"
  shows "strncpy (memset0 m) src n =
           cstring (take n src) @ replicate (m - length (cstring (take n src))) 0"
proof -
  have len: "length (cstring (take n src)) \<le> n"
    unfolding cstring_def
    by (rule order_trans [OF length_takeWhile_le]) simp
  have "replicate (n - length (cstring (take n src))) (0::byte) @ replicate (m - n) 0 =
        replicate (m - length (cstring (take n src))) 0"
    using len assms by (simp add: replicate_add [symmetric])
  then show ?thesis
    by (simp add: strncpy_def memset0_def Let_def)
qed

lemma isascii_less: "isascii c \<longleftrightarrow> c < 0x80"
proof -
  have m: "(0x7F::byte) = mask 7"
    by (simp add: mask_eq_exp_minus_1)
  have "(c AND NOT (mask 7) = 0) = (c AND mask 7 = c)"
    by (auto simp: bit_eq_iff bit_simps)
  also have "\<dots> = (c < 2 ^ 7)"
    by (rule mask_eq_iff_w2p) (simp add: word_size)
  finally show ?thesis
    by (simp add: isascii_def m)
qed

lemma replace_non_ascii_zeros: "replace_non_ascii (replicate k 0) = replicate k 0"
  by (cases k) simp_all

lemma replace_non_ascii_buffer:
  "0 \<notin> set s \<Longrightarrow>
   replace_non_ascii (s @ replicate k 0) = map non_ascii_to_space s @ replicate k 0"
  by (induction s) (auto simp: replace_non_ascii_zeros non_ascii_to_space_def isascii_less)

lemma non_ascii_to_space_no_zero: "0 \<notin> set s \<Longrightarrow> 0 \<notin> set (map non_ascii_to_space s)"
  by (induction s) (auto simp: non_ascii_to_space_def)

lemma g_strstrip_string:
  "g_strstrip (s @ replicate k 0) = strip_whitespace (cstring (s @ replicate k 0))"
proof -
  let ?t = "cstring (s @ replicate k 0)"
  have "0 \<notin> set (dropWhile g_ascii_isspace ?t)"
    using cstring_no_zero [of "s @ replicate k 0"] set_dropWhileD by fastforce
  then show ?thesis
    by (simp add: g_strstrip_def g_strchomp_def g_strchug_def strip_whitespace_def cstring_id)
qed

lemma strip_whitespace_no_zero: "0 \<notin> set s \<Longrightarrow> 0 \<notin> set (strip_whitespace s)"
  unfolding strip_whitespace_def
  by (metis set_dropWhileD set_rev)

subsection \<open>The two paths of \<open>name2utf8\<close>\<close>

lemma name2utf8_invalid:
  assumes "\<not> g_utf8_validate name (unat len)"
  shows "name2utf8 name len =
           strip_whitespace (map non_ascii_to_space
             (takeWhile (\<lambda>c. c \<noteq> 0) (take (min (unat len) (HCI_MAX_NAME_LENGTH + 1)) name)))"
proof -
  let ?n = "min (unat len) (HCI_MAX_NAME_LENGTH + 1)"
  let ?s = "cstring (take ?n name)"
  let ?k = "sizeof_utf8_name - length ?s"
  have n: "?n \<le> sizeof_utf8_name"
    by (simp add: sizeof_utf8_name_def)
  have s0: "0 \<notin> set ?s"
    by (rule cstring_no_zero)
  have m0: "0 \<notin> set (map non_ascii_to_space ?s)"
    using s0 by (rule non_ascii_to_space_no_zero)
  have copy: "strncpy (memset0 sizeof_utf8_name) name ?n = ?s @ replicate ?k 0"
    using n by (rule strncpy_memset0)
  have loop: "replace_non_ascii (?s @ replicate ?k 0) = map non_ascii_to_space ?s @ replicate ?k 0"
    using s0 by (rule replace_non_ascii_buffer)
  have strip: "g_strstrip (map non_ascii_to_space ?s @ replicate ?k 0) =
                 strip_whitespace (map non_ascii_to_space ?s)"
    by (simp only: g_strstrip_string cstring_zeros [OF m0])
  have dup: "g_strdup (strip_whitespace (map non_ascii_to_space ?s)) =
               strip_whitespace (map non_ascii_to_space ?s)"
    unfolding g_strdup_def
    by (rule cstring_id) (rule strip_whitespace_no_zero [OF m0])
  have sz: "sizeof_utf8_name - 1 = HCI_MAX_NAME_LENGTH + 1"
    by (simp add: sizeof_utf8_name_def)
  have "name2utf8 name len =
          g_strdup (g_strstrip (replace_non_ascii
            (strncpy (memset0 sizeof_utf8_name) name ?n)))"
    using assms by (simp only: name2utf8_def Let_def sz if_False)
  also have "\<dots> = strip_whitespace (map non_ascii_to_space ?s)"
    by (simp only: copy loop strip dup)
  finally show ?thesis
    by (simp only: cstring_def)
qed

lemma CONTINUATION_CHAR_nonzero: "CONTINUATION_CHAR c \<Longrightarrow> c \<noteq> 0"
  unfolding CONTINUATION_CHAR_def by auto

lemma fast_validate_len_no_zero: "fast_validate_len bs \<Longrightarrow> 0 \<notin> set bs"
  by (induction bs rule: fast_validate_len.induct)
     (auto split: if_splits list.splits dest: CONTINUATION_CHAR_nonzero)

text \<open>\<open>g_utf8_validate\<close> accepts exactly the valid UTF-8 that holds no zero byte.\<close>

lemma fast_validate_len_valid: "fast_validate_len bs \<Longrightarrow> valid_utf8 bs"
proof (induction bs rule: fast_validate_len.induct)
  case 1
  then show ?case by simp
next
  case (2 b bs)
  show ?case
  proof (cases "b < 128")
    case True
    with 2 show ?thesis by (simp split: if_splits)
  next
    case False
    with 2 show ?thesis
      by (simp split: if_splits list.splits)
  qed
qed

lemma valid_fast_validate_len: "valid_utf8 bs \<Longrightarrow> 0 \<notin> set bs \<Longrightarrow> fast_validate_len bs"
proof (induction bs rule: fast_validate_len.induct)
  case 1
  then show ?case by simp
next
  case (2 b bs)
  from "2.prems" have b: "b \<noteq> 0" and bs: "0 \<notin> set bs"
    by auto
  show ?case
  proof (cases "b < 128")
    case True
    with 2 b bs show ?thesis by simp
  next
    case False
    with 2 b bs show ?thesis
      by (simp split: if_splits list.splits)
  qed
qed

lemma fast_validate_len_iff: "fast_validate_len bs \<longleftrightarrow> valid_utf8 bs \<and> 0 \<notin> set bs"
  using fast_validate_len_valid fast_validate_len_no_zero valid_fast_validate_len by blast

lemma name2utf8_valid:
  assumes "g_utf8_validate name (unat len)"
  shows "name2utf8 name len = take (unat len) name"
proof -
  have z: "0 \<notin> set (take (unat len) name)"
    using assms unfolding g_utf8_validate_def by (rule fast_validate_len_no_zero)
  have "g_strndup name (unat len) = take (unat len) name"
    unfolding g_strndup_def
    by (simp add: strncpy_memset0 cstring_id [OF z] cstring_zeros [OF z])
  with assms show ?thesis
    by (simp add: name2utf8_def)
qed

subsection \<open>Device Name read completion\<close>

text \<open>
  Claim C3, as the code has it. A successful Device Name read completion with a payload
  of nonzero length \<open>len\<close> that is valid UTF-8 and holds no zero byte is accepted by
  \<open>g_utf8_validate\<close> and pushes into the device registry exactly the first \<open>len\<close> bytes
  of the payload: nothing is substituted and no white space is stripped.
\<close>

theorem valid_name_pushed_unchanged:
  assumes "success" and "len \<noteq> 0"
    and "valid_utf8 (take (unat len) val)" and "0 \<notin> set (take (unat len) val)"
  shows "g_utf8_validate val (unat len) \<and>
         read_device_name_cb success att_ecode val len (g, tr) =
           (g, tr @ [DBG ''GAP Device Name: %s'',
                     Btd_device_device_set_name (device g) (take (unat len) val)])"
proof -
  have v: "g_utf8_validate val (unat len)"
    using assms(3,4) by (simp add: g_utf8_validate_def fast_validate_len_iff)
  with assms(1,2) show ?thesis
    by (simp add: read_device_name_cb_def name2utf8_valid)
qed

text \<open>A payload in UTF-8 (a space, an i, an e with acute accent in two bytes, a space),
  in a buffer that holds one byte more than the reported length 5: the five bytes are
  pushed, white space included.\<close>

theorem valid_name_pushed_unchanged_witness:
  "valid_utf8 (take (unat (5 :: uint16_t)) [0x20, 0x69, 0xC3, 0xA9, 0x20, 0x41]) \<and>
   0 \<notin> set (take (unat (5 :: uint16_t)) [0x20, 0x69, 0xC3, 0xA9, 0x20, 0x41 :: byte]) \<and>
   read_device_name_cb True 0 [0x20, 0x69, 0xC3, 0xA9, 0x20, 0x41] 5
       (g_new0_gas\<lparr>device := Some 7\<rparr>, []) =
     (g_new0_gas\<lparr>device := Some 7\<rparr>,
      [DBG ''GAP Device Name: %s'',
       Btd_device_device_set_name (Some 7) [0x20, 0x69, 0xC3, 0xA9, 0x20]])"
proof -
  have v: "valid_utf8 (take (unat (5 :: uint16_t)) [0x20, 0x69, 0xC3, 0xA9, 0x20, 0x41])"
    by code_simp
  have z: "0 \<notin> set (take (unat (5 :: uint16_t)) [0x20, 0x69, 0xC3, 0xA9, 0x20, 0x41 :: byte])"
    by simp
  have n: "(5 :: uint16_t) \<noteq> 0"
    by simp
  show ?thesis
    using v z
      valid_name_pushed_unchanged [OF TrueI n v z, of 0 "g_new0_gas\<lparr>device := Some 7\<rparr>" "[]"]
    by (simp add: g_new0_gas_def)
qed

text \<open>Claim C3 as the specification words it fails on the payload 0x41 0x42 0x00 0x43
  0x44 of length 5: it is valid UTF-8, the zero byte being U+0000, but
  \<open>g_utf8_validate\<close> rejects it, the fallback ends the name at the zero byte, and
  \<open>"AB"\<close> is pushed instead of the five bytes.\<close>

theorem valid_utf8_zero_byte_counterexample:
  "valid_utf8 (take (unat (5 :: uint16_t)) [0x41, 0x42, 0x00, 0x43, 0x44]) \<and>
   take (unat (5 :: uint16_t)) [0x41, 0x42, 0x00, 0x43, 0x44 :: byte] =
     [0x41, 0x42, 0x00, 0x43, 0x44] \<and>
   read_device_name_cb True 0 [0x41, 0x42, 0x00, 0x43, 0x44] 5
       (g_new0_gas\<lparr>device := Some 7\<rparr>, []) =
     (g_new0_gas\<lparr>device := Some 7\<rparr>,
      [DBG ''GAP Device Name: %s'', Btd_device_device_set_name (Some 7) [0x41, 0x42]])"
  by code_simp

text \<open>
  Claim C2, as the code has it. A successful Device Name read completion with a payload
  of nonzero length that \<open>g_utf8_validate\<close> rejects pushes the name obtained so: the
  payload is cut at the reported length and at \<open>HCI_MAX_NAME_LENGTH + 1\<close> bytes, and at
  its first zero byte if it has one; every byte from 0x80 on (not every byte outside
  the printable range) is replaced with a space; leading and trailing white space is
  stripped.
\<close>

theorem invalid_name_fallback:
  assumes "success" and "len \<noteq> 0" and "\<not> g_utf8_validate val (unat len)"
  shows "read_device_name_cb success att_ecode val len (g, tr) =
           (g, tr @ [DBG ''GAP Device Name: %s'',
                     Btd_device_device_set_name (device g)
                       (strip_whitespace (map non_ascii_to_space
                          (takeWhile (\<lambda>c. c \<noteq> 0)
                             (take (min (unat len) (HCI_MAX_NAME_LENGTH + 1)) val))))])"
  using assms by (simp add: read_device_name_cb_def name2utf8_invalid)

text \<open>The input of the claim, 0xFF 0x41 0x42 0xFF, yields the name \<open>"AB"\<close>.\<close>

theorem invalid_name_fallback_witness:
  "\<not> g_utf8_validate [0xFF, 0x41, 0x42, 0xFF] (unat (4 :: uint16_t)) \<and>
   read_device_name_cb True 0 [0xFF, 0x41, 0x42, 0xFF] 4 (g_new0_gas\<lparr>device := Some 7\<rparr>, []) =
     (g_new0_gas\<lparr>device := Some 7\<rparr>,
      [DBG ''GAP Device Name: %s'', Btd_device_device_set_name (Some 7) [0x41, 0x42]])"
proof -
  have v: "\<not> g_utf8_validate [0xFF, 0x41, 0x42, 0xFF] (unat (4 :: uint16_t))"
    by code_simp
  have n: "(4 :: uint16_t) \<noteq> 0"
    by simp
  have r: "strip_whitespace (map non_ascii_to_space
             (takeWhile (\<lambda>c. c \<noteq> 0)
                (take (min (unat (4 :: uint16_t)) (HCI_MAX_NAME_LENGTH + 1))
                   [0xFF, 0x41, 0x42, 0xFF]))) = [0x41, 0x42]"
    by code_simp
  show ?thesis
    using v invalid_name_fallback [OF TrueI n v, of 0 "g_new0_gas\<lparr>device := Some 7\<rparr>" "[]"]
    by (simp only: r) (simp add: g_new0_gas_def)
qed

text \<open>Claim C2 as the specification words it fails on the payload 0xFF 0x07 0x41 0x00
  0x42: the code keeps the control byte 0x07, which is ASCII, and ends the name at the
  zero byte, and pushes 0x07 0x41; replacing what is outside the printable range
  would give \<open>"A B"\<close>.\<close>

theorem printable_range_counterexample:
  "\<not> g_utf8_validate [0xFF, 0x07, 0x41, 0x00, 0x42] (unat (5 :: uint16_t)) \<and>
   read_device_name_cb True 0 [0xFF, 0x07, 0x41, 0x00, 0x42] 5
       (g_new0_gas\<lparr>device := Some 7\<rparr>, []) =
     (g_new0_gas\<lparr>device := Some 7\<rparr>,
      [DBG ''GAP Device Name: %s'', Btd_device_device_set_name (Some 7) [0x07, 0x41]]) \<and>
   name2utf8_spec [0xFF, 0x07, 0x41, 0x00, 0x42] 5 = [0x41, 0x20, 0x42]"
  by code_simp

text \<open>
  Claim C5. A Device Name read completion that reports failure, or that succeeds with
  length zero, leaves the handler as it is and makes no call into the device registry;
  on failure the only effect is one line in the log, on length zero there is none.
\<close>

theorem name_read_failure_or_empty_is_noop:
  assumes "\<not> success \<or> len = 0"
  shows "fst (read_device_name_cb success att_ecode val len (g, tr)) = g \<and>
         registry_calls (snd (read_device_name_cb success att_ecode val len (g, tr))) =
           registry_calls tr \<and>
         snd (read_device_name_cb success att_ecode val len (g, tr)) =
           (if success then tr
            else tr @ [DBG ''Reading device name failed with ATT errror: %u''])"
  using assms by (auto simp: read_device_name_cb_def registry_calls_def)

text \<open>A failed read with ATT error 0x0A, and a successful read of length zero.\<close>

theorem name_read_failure_or_empty_is_noop_witness:
  "read_device_name_cb False 0x0A [0x41] 1 (g_new0_gas\<lparr>device := Some 7\<rparr>, []) =
     (g_new0_gas\<lparr>device := Some 7\<rparr>, [DBG ''Reading device name failed with ATT errror: %u'']) \<and>
   read_device_name_cb True 0 [0x41] 0 (g_new0_gas\<lparr>device := Some 7\<rparr>, []) =
     (g_new0_gas\<lparr>device := Some 7\<rparr>, [])"
proof -
  have a: "\<not> False \<or> (1 :: uint16_t) = 0"
    by simp
  have b: "\<not> True \<or> (0 :: uint16_t) = 0"
    by simp
  show ?thesis
    using name_read_failure_or_empty_is_noop [OF a, of "0x0A" "[0x41]" "g_new0_gas\<lparr>device := Some 7\<rparr>" "[]"]
      name_read_failure_or_empty_is_noop [OF b, of 0 "[0x41]" "g_new0_gas\<lparr>device := Some 7\<rparr>" "[]"]
    by (simp add: prod_eq_iff)
qed

lemma takeWhile_take: "takeWhile P (take n xs) = take n (takeWhile P xs)"
  by (induction xs arbitrary: n) (auto simp: take_Cons split: nat.splits)

lemma takeWhile_take_stop:
  "\<exists>x \<in> set (take n xs). \<not> P x \<Longrightarrow> takeWhile P (take n xs) = takeWhile P xs"
  by (induction xs arbitrary: n) (auto simp: take_Cons split: nat.splits)

text \<open>
  Claim C10. In the fallback path, a zero byte before the reported length ends the
  name: the pushed name is computed from the bytes before the first zero byte only
  (at most \<open>HCI_MAX_NAME_LENGTH + 1\<close> of them), whatever follows it.
\<close>

theorem zero_byte_ends_name:
  assumes "\<not> g_utf8_validate val (unat len)" and "0 \<in> set (take (unat len) val)"
  shows "read_device_name_cb True att_ecode val len (g, tr) =
           (g, tr @ [DBG ''GAP Device Name: %s'',
                     Btd_device_device_set_name (device g)
                       (strip_whitespace (map non_ascii_to_space
                          (take (HCI_MAX_NAME_LENGTH + 1) (takeWhile (\<lambda>c. c \<noteq> 0) val))))])"
proof -
  have n: "len \<noteq> 0"
    using assms(2) by auto
  have "takeWhile (\<lambda>c. c \<noteq> 0) (take (min (unat len) (HCI_MAX_NAME_LENGTH + 1)) val) =
        take (HCI_MAX_NAME_LENGTH + 1) (takeWhile (\<lambda>c. c \<noteq> 0) (take (unat len) val))"
    by (simp only: takeWhile_take take_take min.commute)
  also have "takeWhile (\<lambda>c. c \<noteq> 0) (take (unat len) val) = takeWhile (\<lambda>c. c \<noteq> 0) val"
    using assms(2) by (intro takeWhile_take_stop) auto
  finally show ?thesis
    using assms(1) n by (simp add: read_device_name_cb_def name2utf8_invalid)
qed

text \<open>The bytes \<open>"AB"\<close>, a zero byte, \<open>"CD"\<close>, with reported length 5: \<open>"AB"\<close> is pushed.\<close>

theorem zero_byte_ends_name_witness:
  "\<not> g_utf8_validate [0x41, 0x42, 0x00, 0x43, 0x44] (unat (5 :: uint16_t)) \<and>
   0 \<in> set (take (unat (5 :: uint16_t)) [0x41, 0x42, 0x00, 0x43, 0x44 :: byte]) \<and>
   read_device_name_cb True 0 [0x41, 0x42, 0x00, 0x43, 0x44] 5 (g_new0_gas\<lparr>device := Some 7\<rparr>, []) =
     (g_new0_gas\<lparr>device := Some 7\<rparr>,
      [DBG ''GAP Device Name: %s'', Btd_device_device_set_name (Some 7) [0x41, 0x42]])"
proof -
  have v: "\<not> g_utf8_validate [0x41, 0x42, 0x00, 0x43, 0x44] (unat (5 :: uint16_t))"
    by code_simp
  have z: "0 \<in> set (take (unat (5 :: uint16_t)) [0x41, 0x42, 0x00, 0x43, 0x44 :: byte])"
    by simp
  have r: "strip_whitespace (map non_ascii_to_space
             (take (HCI_MAX_NAME_LENGTH + 1)
                (takeWhile (\<lambda>c. c \<noteq> 0) [0x41, 0x42, 0x00, 0x43, 0x44]))) = [0x41, 0x42]"
    by code_simp
  show ?thesis
    using v z zero_byte_ends_name [OF v z, of 0 "g_new0_gas\<lparr>device := Some 7\<rparr>" "[]"]
    by (simp only: r) (simp add: g_new0_gas_def)
qed

lemma strip_whitespace_spaces: "strip_whitespace (replicate k 0x20) = []"
  by (simp add: strip_whitespace_def dropWhile_replicate g_ascii_isspace_def)

text \<open>
  Claim C9. A payload of \<open>n\<close> bytes 0xFF, for any nonzero \<open>n\<close> a length can report, is not
  valid UTF-8, its decoded name is empty after stripping, and the empty name is pushed
  into the device registry (unlike a payload of length zero, which pushes nothing).
\<close>

theorem all_FF_name_pushed_empty:
  assumes "0 < n" and "n < 2 ^ 16"
  shows "\<not> g_utf8_validate (replicate n 0xFF) (unat (of_nat n :: uint16_t)) \<and>
         read_device_name_cb True att_ecode (replicate n 0xFF) (of_nat n) (g, tr) =
           (g, tr @ [DBG ''GAP Device Name: %s'', Btd_device_device_set_name (device g) []])"
proof -
  have u: "unat (of_nat n :: uint16_t) = n"
    by (rule of_nat_inverse [OF refl]) (use assms(2) in simp)
  have nz: "(of_nat n :: uint16_t) \<noteq> 0"
    using u assms(1) by fastforce
  have inv: "\<not> g_utf8_validate (replicate n 0xFF) (unat (of_nat n :: uint16_t))"
    using assms(1) unfolding u g_utf8_validate_def
    by (cases n) simp_all
  have "map non_ascii_to_space (takeWhile (\<lambda>c. c \<noteq> 0)
          (take (min n (HCI_MAX_NAME_LENGTH + 1)) (replicate n 0xFF))) =
        replicate (min n (HCI_MAX_NAME_LENGTH + 1)) 0x20"
    by (simp add: takeWhile_replicate non_ascii_to_space_def min.absorb4 min.commute)
  then have "name2utf8 (replicate n 0xFF) (of_nat n :: uint16_t) = []"
    using name2utf8_invalid [OF inv] by (simp only: u strip_whitespace_spaces)
  with inv nz show ?thesis
    by (simp add: read_device_name_cb_def)
qed

text \<open>Three bytes 0xFF.\<close>

theorem all_FF_name_pushed_empty_witness:
  "\<not> g_utf8_validate [0xFF, 0xFF, 0xFF] 3 \<and>
   read_device_name_cb True 0 [0xFF, 0xFF, 0xFF] 3 (g_new0_gas\<lparr>device := Some 7\<rparr>, []) =
     (g_new0_gas\<lparr>device := Some 7\<rparr>,
      [DBG ''GAP Device Name: %s'', Btd_device_device_set_name (Some 7) []])"
proof -
  have a: "0 < (3 :: nat)" and b: "(3 :: nat) < 2 ^ 16"
    by simp_all
  have r: "replicate 3 (0xFF :: byte) = [0xFF, 0xFF, 0xFF]"
    by (simp add: numeral_3_eq_3)
  show ?thesis
    using all_FF_name_pushed_empty [OF a b, of 0 "g_new0_gas\<lparr>device := Some 7\<rparr>" "[]"]
    by (simp add: r g_new0_gas_def)
qed

subsection \<open>Appearance read completion\<close>

lemma get_le16_unat: "unat (get_le16 (b0 # b1 # rest)) = unat b0 + 256 * unat b1"
proof -
  let ?x = "ucast b0 :: uint16_t" and ?y = "push_bit 8 (ucast b1) :: uint16_t"
  have disj: "?x AND ?y = 0"
    by (auto simp: bit_eq_iff bit_simps dest: bit_imp_le_length)
  have x: "unat ?x = unat b0"
    by (simp add: unsigned_ucast_eq take_bit_nat_eq_self_iff) (rule less_trans [OF unsigned_less], simp)
  have b1: "unat b1 < 2 ^ 8"
    using unsigned_less [of b1] by simp
  have c1: "unat (ucast b1 :: uint16_t) = unat b1"
    by (simp add: unsigned_ucast_eq take_bit_nat_eq_self_iff) (rule less_trans [OF unsigned_less], simp)
  have "unat ((ucast b1 :: uint16_t) * 256) = unat (ucast b1 :: uint16_t) * unat (256 :: uint16_t)"
    by (rule unat_mult_lem [THEN iffD1]) (use b1 in \<open>simp add: c1\<close>)
  then have y: "unat ?y = 256 * unat b1"
    by (simp add: push_bit_eq_mult c1)
  have b0: "unat b0 < 2 ^ 8"
    using unsigned_less [of b0] by simp
  have "unat (?x + ?y) = unat ?x + unat ?y"
    by (rule unat_add_lem [THEN iffD1]) (use b0 b1 in \<open>simp add: x y\<close>)
  then show ?thesis
    unfolding x y by (simp add: get_le16_def disjunctive_add_eq_or [OF disj, symmetric])
qed

text \<open>
  Claim C4. A successful Appearance read completion leaves the handler as it is and
  calls the device registry exactly when the reported length is 2, with the two bytes
  read as a 16-bit unsigned integer, low byte first; any other length only logs
  "Malformed appearance value".
\<close>

theorem appearance_pushed_iff_two_bytes:
  assumes "success"
  shows "fst (read_appearance_cb success att_ecode val len (g, tr)) = g \<and>
         registry_calls (snd (read_appearance_cb success att_ecode val len (g, tr))) =
           registry_calls tr @
             (if len = 2 then [Device_set_appearance (device g) (get_le16 val)] else []) \<and>
         snd (read_appearance_cb success att_ecode val len (g, tr)) =
           (if len = 2
            then tr @ [DBG ''GAP Appearance: 0x%04x'',
                       Device_set_appearance (device g) (get_le16 val)]
            else tr @ [DBG ''Malformed appearance value'']) \<and>
         unat (get_le16 (b0 # b1 # rest)) = unat b0 + 256 * unat b1"
  using assms
  by (auto simp: read_appearance_cb_def registry_calls_def get_le16_unat)

text \<open>The bytes 0x40 0x03 yield 0x0340; three bytes are dropped with the log line.\<close>

theorem appearance_pushed_iff_two_bytes_witness:
  "read_appearance_cb True 0 [0x40, 0x03] 2 (g_new0_gas\<lparr>device := Some 7\<rparr>, []) =
     (g_new0_gas\<lparr>device := Some 7\<rparr>,
      [DBG ''GAP Appearance: 0x%04x'', Device_set_appearance (Some 7) 0x0340]) \<and>
   read_appearance_cb True 0 [0x40, 0x03, 0x00] 3 (g_new0_gas\<lparr>device := Some 7\<rparr>, []) =
     (g_new0_gas\<lparr>device := Some 7\<rparr>, [DBG ''Malformed appearance value''])"
proof -
  have r: "get_le16 [0x40, 0x03] = 0x0340"
    by (simp add: get_le16_def)
  show ?thesis
    using appearance_pushed_iff_two_bytes [OF TrueI, where att_ecode = 0 and val = "[0x40, 0x03]"
        and len = 2 and g = "g_new0_gas\<lparr>device := Some 7\<rparr>" and tr = "[]"]
      appearance_pushed_iff_two_bytes [OF TrueI, where att_ecode = 0 and val = "[0x40, 0x03, 0x00]"
        and len = 3 and g = "g_new0_gas\<lparr>device := Some 7\<rparr>" and tr = "[]"]
    by (simp add: prod_eq_iff r)
qed

subsection \<open>Service notifications\<close>

lemma handle_characteristic_fst: "fst (handle_characteristic e a s) = fst s"
  by (cases s)
     (simp add: handle_characteristic_def handle_device_name_def handle_appearance_def
           split: option.splits prod.splits)

lemma fold_handle_characteristic_fst: "fst (fold (handle_characteristic e) cs s) = fst s"
  by (induction cs arbitrary: s) (simp_all add: handle_characteristic_fst)

lemma handle_gap_service_fst: "fst (handle_gap_service e s) = fst s"
  by (simp add: handle_gap_service_def fold_handle_characteristic_fst split: option.splits)

lemma foreach_gap_service_fst:
  "fst (foreach_gap_service e a (g, tr)) = (if attr g \<noteq> None then g else g\<lparr>attr := Some a\<rparr>)"
  by (simp add: foreach_gap_service_def handle_gap_service_fst)

lemma fold_foreach_gap_service_bound:
  "attr (fst s) \<noteq> None \<Longrightarrow> fst (fold (foreach_gap_service e) as s) = fst s"
proof (induction as arbitrary: s)
  case Nil
  then show ?case by simp
next
  case (Cons a as)
  obtain g tr where s: "s = (g, tr)"
    by (cases s)
  have "fst (foreach_gap_service e a s) = fst s"
    using Cons.prems by (simp add: s foreach_gap_service_fst)
  with Cons show ?case
    by simp
qed

lemma fold_foreach_gap_service_fst:
  assumes "attr g = None"
  shows "fst (fold (foreach_gap_service e) as (g, tr)) =
           g\<lparr>attr := (case as of [] \<Rightarrow> None | a # _ \<Rightarrow> Some a)\<rparr>"
proof (cases as)
  case Nil
  with assms show ?thesis by simp
next
  case (Cons a as')
  have "fst (foreach_gap_service e a (g, tr)) = g\<lparr>attr := Some a\<rparr>"
    using assms by (simp add: foreach_gap_service_fst)
  then have "fst (fold (foreach_gap_service e) as' (foreach_gap_service e a (g, tr))) =
             g\<lparr>attr := Some a\<rparr>"
    by (simp add: fold_foreach_gap_service_bound)
  with Cons show ?thesis by simp
qed

lemma bt_uuid_cmp_zero: "bt_uuid_cmp u1 u2 = 0 \<longleftrightarrow> bt_uuid_to_uuid128 u1 = bt_uuid_to_uuid128 u2"
  by (simp add: bt_uuid_cmp_def)

lemma gap_uuid_cmp: 
  "bt_uuid_cmp (gatt_db_attribute_get_service_uuid e a) (bt_uuid16_create GAP_UUID16) = 0
     \<longleftrightarrow> is_gap_service e a"
  by (simp add: bt_uuid_cmp_zero is_gap_service_def bt_uuid16_create_def GAP_UUID16_def)

text \<open>
  Claim C6. A service-added notification leaves the handler as it is and issues no
  read request unless the GATT client reports ready, the added service's UUID equals
  the GAP service UUID 0x1800 and no service is bound. The tests come in this order:
  a client that is not ready, or a service that is not a GAP service, makes the
  notification a plain no-op; a GAP service added while a service is bound already
  is logged as an anomaly and is a no-op that keeps the first bound service.
\<close>

theorem service_added_guards:
  "(\<not> (bt_gatt_client_is_ready e (client g) \<and> is_gap_service e a \<and> attr g = None) \<longrightarrow>
      fst (service_added e a (g, tr)) = g \<and>
      read_requests (snd (service_added e a (g, tr))) = read_requests tr \<and>
      registry_calls (snd (service_added e a (g, tr))) = registry_calls tr) \<and>
   (\<not> bt_gatt_client_is_ready e (client g) \<longrightarrow> service_added e a (g, tr) = (g, tr)) \<and>
   (\<not> is_gap_service e a \<longrightarrow> service_added e a (g, tr) = (g, tr)) \<and>
   (bt_gatt_client_is_ready e (client g) \<and> is_gap_service e a \<and> attr g \<noteq> None \<longrightarrow>
      service_added e a (g, tr) =
        (g, tr @ [ERROR ''More than one GAP service added to device'']))"
  by (auto simp: service_added_def gap_uuid_cmp read_requests_def registry_calls_def)

text \<open>With the client missing, the GAP service 1 is not bound; with service 9 bound and
  the client ready, the Device Information service 2 is passed over in silence and
  the GAP service 3 is refused with the error line.\<close>

theorem service_added_guards_witness:
  "\<not> bt_gatt_client_is_ready example_env (client (example_gas\<lparr>client := None, attr := None\<rparr>)) \<and>
   fst (service_added example_env 1 (example_gas\<lparr>client := None, attr := None\<rparr>, [])) =
     example_gas\<lparr>client := None, attr := None\<rparr> \<and>
   read_requests (snd (service_added example_env 1
     (example_gas\<lparr>client := None, attr := None\<rparr>, []))) = [] \<and>
   service_added example_env 1 (example_gas\<lparr>client := None, attr := None\<rparr>, []) =
     (example_gas\<lparr>client := None, attr := None\<rparr>, []) \<and>
   attr example_gas = Some 9 \<and>
   bt_gatt_client_is_ready example_env (client example_gas) \<and>
   \<not> is_gap_service example_env 2 \<and>
   service_added example_env 2 (example_gas, []) = (example_gas, []) \<and>
   is_gap_service example_env 3 \<and>
   service_added example_env 3 (example_gas, []) =
     (example_gas, [ERROR ''More than one GAP service added to device''])"
proof -
  have a: "\<not> bt_gatt_client_is_ready example_env (client (example_gas\<lparr>client := None, attr := None\<rparr>))"
    by (simp add: example_env_def)
  have b: "attr example_gas = Some 9"
    by (simp add: example_gas_def)
  have c: "bt_gatt_client_is_ready example_env (client example_gas)"
    by (simp add: example_env_def example_gas_def)
  have d: "is_gap_service example_env 3"
    by code_simp
  have n: "\<not> is_gap_service example_env 2"
    by code_simp
  show ?thesis
    using a b c d n
      service_added_guards [of example_env "example_gas\<lparr>client := None, attr := None\<rparr>" 1 "[]"]
      service_added_guards [of example_env example_gas 2 "[]"]
      service_added_guards [of example_env example_gas 3 "[]"]
    by (simp add: read_requests_def)
qed

text \<open>
  Claim C7. A service-removed notification clears the bound service exactly when the
  removed node is the bound one, and is a no-op for any other node; in both cases the
  device, the database, its registration and the client of the handler are unchanged,
  nothing is asked of the registry or of the GATT client, and in the list only the
  bound service of the notified handler can change.
\<close>

theorem service_removed_frame:
  "service_removed a (g, tr) =
     (if attr g = Some a then (g\<lparr>attr := None\<rparr>, tr @ [DBG ''GAP service removed''])
      else (g, tr)) \<and>
   fst (service_removed a (g, tr)) = g\<lparr>attr := (if attr g = Some a then None else attr g)\<rparr> \<and>
   device (fst (service_removed a (g, tr))) = device g \<and>
   db (fst (service_removed a (g, tr))) = db g \<and>
   db_id (fst (service_removed a (g, tr))) = db_id g \<and>
   client (fst (service_removed a (g, tr))) = client g \<and>
   attr (fst (service_removed a (g, tr))) = (if attr g = Some a then None else attr g) \<and>
   registry_calls (snd (service_removed a (g, tr))) = registry_calls tr \<and>
   read_requests (snd (service_removed a (g, tr))) = read_requests tr \<and>
   devices (run_callback i (service_removed a) st) =
     (devices st)[i := (devices st ! i)
        \<lparr>attr := (if attr (devices st ! i) = Some a then None else attr (devices st ! i))\<rparr>]"
  by (simp add: service_removed_def run_callback_def registry_calls_def read_requests_def)

subsection \<open>The list of handlers\<close>

lemma find_custom_Nil:
  "g_slist_find_custom xs dev cmp_device = [] \<longleftrightarrow> (\<forall>g \<in> set xs. device g \<noteq> Some dev)"
  by (auto simp: g_slist_find_custom_def cmp_device_def dropWhile_eq_Nil_conv)

lemma find_custom_Cons:
  assumes "g_slist_find_custom xs dev cmp_device = g # rest"
  shows "device g = Some dev"
    and "xs = g_slist_before xs dev cmp_device @ g # rest"
proof -
  have "\<not> (cmp_device g dev \<noteq> 0)"
    using assms hd_dropWhile [of "\<lambda>x. cmp_device x dev \<noteq> 0" xs]
    by (simp add: g_slist_find_custom_def)
  then show "device g = Some dev"
    by (simp add: cmp_device_def split: if_splits)
  show "xs = g_slist_before xs dev cmp_device @ g # rest"
    using assms takeWhile_dropWhile_id [of "\<lambda>x. cmp_device x dev \<noteq> 0" xs]
    by (simp add: g_slist_find_custom_def g_slist_before_def)
qed

lemma find_custom_before:
  assumes "device g = Some dev"
  shows "g_slist_find_custom (g_slist_before xs dev cmp_device @ g # rest) dev cmp_device = g # rest"
proof -
  have "\<And>x. x \<in> set (takeWhile (\<lambda>x. cmp_device x dev \<noteq> 0) xs) \<Longrightarrow> cmp_device x dev \<noteq> 0"
    by (rule set_takeWhileD [THEN conjunct2])
  then show ?thesis
    using assms
    by (simp add: g_slist_find_custom_def g_slist_before_def dropWhile_append2 cmp_device_def)
qed

text \<open>The node that \<open>gap_driver_remove\<close> unlinks is the node it has found: no node
  before it holds a handler of the same device.\<close>

lemma g_slist_remove_found:
  assumes "g_slist_find_custom xs dev cmp_device = g # rest"
  shows "g_slist_remove xs g = g_slist_before xs dev cmp_device @ rest"
proof -
  have "\<forall>x \<in> set (g_slist_before xs dev cmp_device). device x \<noteq> Some dev"
    unfolding g_slist_before_def
    by (auto simp: cmp_device_def dest!: set_takeWhileD split: if_splits)
  then have "g \<notin> set (g_slist_before xs dev cmp_device)"
    using find_custom_Cons(1) [OF assms] by auto
  then have "remove1 g (g_slist_before xs dev cmp_device @ g # rest) =
             g_slist_before xs dev cmp_device @ rest"
    by (simp add: remove1_append)
  then show ?thesis
    using find_custom_Cons(2) [OF assms] by (simp add: g_slist_remove_def)
qed

lemma handler_of_Some:
  "handler_of st dev = Some g \<longleftrightarrow>
     (\<exists>rest. g_slist_find_custom (devices st) dev cmp_device = g # rest)"
  by (auto simp: handler_of_def split: list.splits)

lemma handle_characteristic_trace: "\<exists>evs. snd (handle_characteristic e a s) = snd s @ evs"
  by (cases s)
     (simp add: handle_characteristic_def handle_device_name_def handle_appearance_def
           split: option.splits prod.splits)

lemma fold_handle_characteristic_trace:
  "\<exists>evs. snd (fold (handle_characteristic e) cs s) = snd s @ evs"
proof (induction cs arbitrary: s)
  case Nil
  then show ?case by simp
next
  case (Cons c cs)
  obtain evs1 where 1: "snd (handle_characteristic e c s) = snd s @ evs1"
    using handle_characteristic_trace by blast
  obtain evs2 where "snd (fold (handle_characteristic e) cs (handle_characteristic e c s)) =
      snd (handle_characteristic e c s) @ evs2"
    using Cons.IH by blast
  with 1 show ?case by simp
qed

lemma handle_gap_service_trace: "\<exists>evs. snd (handle_gap_service e s) = snd s @ evs"
  by (simp add: handle_gap_service_def fold_handle_characteristic_trace split: option.splits)

lemma foreach_gap_service_trace: "\<exists>evs. snd (foreach_gap_service e a s) = snd s @ evs"
proof (cases s)
  case (Pair g tr)
  show ?thesis
    using handle_gap_service_trace [of e "(g\<lparr>attr := Some a\<rparr>, tr)"]
    by (simp add: Pair foreach_gap_service_def)
qed

lemma fold_foreach_gap_service_trace:
  "\<exists>evs. snd (fold (foreach_gap_service e) as s) = snd s @ evs"
proof (induction as arbitrary: s)
  case Nil
  then show ?case by simp
next
  case (Cons a as)
  obtain evs1 where 1: "snd (foreach_gap_service e a s) = snd s @ evs1"
    using foreach_gap_service_trace by blast
  obtain evs2 where "snd (fold (foreach_gap_service e) as (foreach_gap_service e a s)) =
      snd (foreach_gap_service e a s) @ evs2"
    using Cons.IH by blast
  with 1 show ?case by simp
qed

lemma accept_trace:
  assumes "g_slist_find_custom (devices st) dev cmp_device = g # rest"
  shows "\<exists>evs. trace (snd (gap_driver_accept e (Btd_service dev) st)) =
           trace st @
           [DBG ''GAP profile accept (%s)'',
            Gatt_db_unregister (db g) (db_id g), Gatt_db_unref (db g),
            Bt_gatt_client_unref (client g),
            Gatt_db_ref (btd_device_get_gatt_db e dev),
            Bt_gatt_client_ref (btd_device_get_gatt_client e dev),
            Gatt_db_register (btd_device_get_gatt_db e dev)] @ evs"
proof -
  let ?d = "btd_device_get_gatt_db e dev"
  let ?c = "btd_device_get_gatt_client e dev"
  let ?g2 = "g\<lparr>attr := None, db := Some ?d, client := Some ?c, db_id := gatt_db_register e ?d\<rparr>"
  let ?tr2 = "trace st @ [DBG ''GAP profile accept (%s)'',
            Gatt_db_unregister (db g) (db_id g), Gatt_db_unref (db g),
            Bt_gatt_client_unref (client g),
            Gatt_db_ref ?d, Bt_gatt_client_ref ?c, Gatt_db_register ?d]"
  let ?r = "fold (foreach_gap_service e)
              (gatt_db_foreach_service e ?d (bt_uuid16_create GAP_UUID16)) (?g2, ?tr2)"
  obtain evs where "snd ?r = ?tr2 @ evs"
    using fold_foreach_gap_service_trace [of e _ "(?g2, ?tr2)"] by auto
  moreover have "trace (snd (gap_driver_accept e (Btd_service dev) st)) = snd ?r"
    by (simp add: gap_driver_accept_def assms Let_def split: prod.splits)
  ultimately show ?thesis
    by simp
qed

text \<open>
  Claim C8. When the driver accepts a device that has a handler, it releases the old
  database and client, takes the current ones and scans; the service bound afterwards
  is the first GAP service of the current database, and none when the scan finds
  none, whatever was bound before.
\<close>

theorem accept_rebinds_service:
  assumes "handler_of st dev = Some g"
  shows "fst (gap_driver_accept e (Btd_service dev) st) = 0 \<and>
         handler_of (snd (gap_driver_accept e (Btd_service dev) st)) dev =
           Some (g\<lparr>db := Some (btd_device_get_gatt_db e dev),
                   db_id := gatt_db_register e (btd_device_get_gatt_db e dev),
                   client := Some (btd_device_get_gatt_client e dev),
                   attr := (case gatt_db_foreach_service e (btd_device_get_gatt_db e dev)
                                   (bt_uuid16_create GAP_UUID16) of
                              [] \<Rightarrow> None | a # _ \<Rightarrow> Some a)\<rparr>) \<and>
         (\<exists>evs. trace (snd (gap_driver_accept e (Btd_service dev) st)) =
            trace st @
            [DBG ''GAP profile accept (%s)'',
             Gatt_db_unregister (db g) (db_id g), Gatt_db_unref (db g),
             Bt_gatt_client_unref (client g),
             Gatt_db_ref (btd_device_get_gatt_db e dev),
             Bt_gatt_client_ref (btd_device_get_gatt_client e dev),
             Gatt_db_register (btd_device_get_gatt_db e dev)] @ evs)"
proof -
  obtain rest where l: "g_slist_find_custom (devices st) dev cmp_device = g # rest"
    using assms by (auto simp: handler_of_Some)
  have dev: "device g = Some dev"
    using l by (rule find_custom_Cons)
  let ?d = "btd_device_get_gatt_db e dev"
  let ?c = "btd_device_get_gatt_client e dev"
  let ?g2 = "g\<lparr>attr := None, db := Some ?d, client := Some ?c, db_id := gatt_db_register e ?d\<rparr>"
  let ?scan = "gatt_db_foreach_service e ?d (bt_uuid16_create GAP_UUID16)"
  let ?g3 = "?g2\<lparr>attr := (case ?scan of [] \<Rightarrow> None | a # _ \<Rightarrow> Some a)\<rparr>"
  have scan: "\<And>tr. fst (fold (foreach_gap_service e) ?scan (?g2, tr)) = ?g3"
    by (rule fold_foreach_gap_service_fst) simp
  have d3: "device ?g3 = Some dev"
    using dev by simp
  have "devices (snd (gap_driver_accept e (Btd_service dev) st)) =
          g_slist_before (devices st) dev cmp_device @ ?g3 # rest"
    using scan by (simp add: gap_driver_accept_def l Let_def split: prod.splits) (metis fst_conv)
  then have "handler_of (snd (gap_driver_accept e (Btd_service dev) st)) dev = Some ?g3"
    unfolding handler_of_def by (simp only: find_custom_before [OF d3] list.case)
  moreover have "fst (gap_driver_accept e (Btd_service dev) st) = 0"
    by (simp add: gap_driver_accept_def l Let_def split: prod.splits)
  ultimately show ?thesis
    using accept_trace [OF l, of e] by simp
qed

text \<open>The handler of device 2 is bound to service 9 of an earlier connection; the
  database of device 2 has no GAP service; after accept nothing is bound.\<close>

theorem accept_rebinds_service_witness:
  "handler_of \<lparr>devices = [example_gas], trace = []\<rparr> 2 = Some example_gas \<and>
   attr example_gas = Some 9 \<and>
   gatt_db_foreach_service example_env (btd_device_get_gatt_db example_env 2)
     (bt_uuid16_create GAP_UUID16) = [] \<and>
   fst (gap_driver_accept example_env (Btd_service 2) \<lparr>devices = [example_gas], trace = []\<rparr>) = 0 \<and>
   handler_of (snd (gap_driver_accept example_env (Btd_service 2)
       \<lparr>devices = [example_gas], trace = []\<rparr>)) 2 =
     Some \<lparr>device = Some 2, db = Some 12, db_id = 1, client = Some 22, attr = None\<rparr>"
proof -
  have h: "handler_of \<lparr>devices = [example_gas], trace = []\<rparr> 2 = Some example_gas"
    by code_simp
  have b: "attr example_gas = Some 9"
    by (simp add: example_gas_def)
  have s: "gatt_db_foreach_service example_env (btd_device_get_gatt_db example_env 2)
             (bt_uuid16_create GAP_UUID16) = []"
    by code_simp
  have e: "btd_device_get_gatt_db example_env 2 = 12"
      "btd_device_get_gatt_client example_env 2 = 22"
      "gatt_db_register example_env 12 = 1"
    by (simp_all add: example_env_def)
  show ?thesis
    using h b s accept_rebinds_service [OF h, of example_env]
    by (simp add: e) (simp add: example_gas_def)
qed

subsection \<open>One handler per device\<close>

lemma probe_devices:
  "devices (snd (gap_driver_probe service st)) =
     (if g_slist_find_custom (devices st) (btd_service_get_device service) cmp_device \<noteq> []
      then devices st
      else devices st @ [g_new0_gas\<lparr>device := Some (btd_service_get_device service)\<rparr>])"
  by (simp add: gap_driver_probe_def Let_def g_slist_append_def)

lemma distinct_map_remove1: "distinct (map f xs) \<Longrightarrow> distinct (map f (remove1 x xs))"
proof (induction xs)
  case Nil
  then show ?case by simp
next
  case (Cons y ys)
  have "set (remove1 x ys) \<subseteq> set ys"
    by (rule set_remove1_subset)
  with Cons show ?case
    by auto
qed

lemma remove_distinct:
  "distinct (map device (devices st)) \<Longrightarrow>
   distinct (map device (devices (gap_driver_remove service st)))"
  by (simp add: gap_driver_remove_def Let_def g_slist_remove_def distinct_map_remove1)

lemma accept_devices:
  "map device (devices (snd (gap_driver_accept e service st))) = map device (devices st)"
proof (cases "g_slist_find_custom (devices st) (btd_service_get_device service) cmp_device")
  case Nil
  then show ?thesis
    by (simp add: gap_driver_accept_def Let_def)
next
  case (Cons g rest)
  let ?dev = "btd_service_get_device service"
  let ?d = "btd_device_get_gatt_db e ?dev"
  let ?g2 = "g\<lparr>attr := None, db := Some ?d, client := Some (btd_device_get_gatt_client e ?dev),
               db_id := gatt_db_register e ?d\<rparr>"
  have "\<And>tr. device (fst (fold (foreach_gap_service e)
            (gatt_db_foreach_service e ?d (bt_uuid16_create GAP_UUID16)) (?g2, tr))) = device g"
    by (subst fold_foreach_gap_service_fst) simp_all
  then have "map device (devices (snd (gap_driver_accept e service st))) =
        map device (g_slist_before (devices st) ?dev cmp_device @ g # rest)"
    by (simp add: gap_driver_accept_def Cons Let_def split: prod.splits) (metis fst_conv)
  also have "g_slist_before (devices st) ?dev cmp_device @ g # rest = devices st"
    using find_custom_Cons(2) [OF Cons] by simp
  finally show ?thesis .
qed

lemma run_callback_devices:
  assumes "i < length (devices st)"
    and "\<And>g tr. device (fst (cb (g, tr))) = device g"
  shows "map device (devices (run_callback i cb st)) = map device (devices st)"
proof -
  obtain g tr where c: "cb (devices st ! i, trace st) = (g, tr)"
    by (cases "cb (devices st ! i, trace st)")
  have "device g = device (devices st ! i)"
    using assms(2) [of "devices st ! i" "trace st"] c by simp
  then have "(map device (devices st))[i := device g] = map device (devices st)"
    using assms(1) by (simp add: list_update_same_conv)
  then show ?thesis
    by (simp add: run_callback_def c map_update)
qed

lemma service_added_device: "device (fst (service_added e a (g, tr))) = device g"
  by (simp add: service_added_def handle_gap_service_fst)

lemma service_removed_device: "device (fst (service_removed a (g, tr))) = device g"
  by (simp add: service_removed_def)

lemma read_device_name_cb_device:
  "device (fst (read_device_name_cb success att_ecode val len (g, tr))) = device g"
  by (simp add: read_device_name_cb_def Let_def)

lemma read_appearance_cb_device:
  "device (fst (read_appearance_cb success att_ecode val len (g, tr))) = device g"
  by (simp add: read_appearance_cb_def Let_def)

lemma reachable_distinct: "reachable st \<Longrightarrow> distinct (map device (devices st))"
proof (induction rule: reachable.induct)
  case init
  then show ?case by (simp add: gap_init_def)
next
  case (probe st service)
  then show ?case
    by (auto simp: probe_devices find_custom_Nil g_new0_gas_def)
next
  case (remove st service)
  then show ?case by (simp only: remove_distinct)
next
  case (accept st e service)
  then show ?case by (simp only: accept_devices)
next
  case (added st i e a)
  then show ?case by (simp only: run_callback_devices service_added_device)
next
  case (removed st i a)
  then show ?case by (simp only: run_callback_devices service_removed_device)
next
  case (name_read st i success att_ecode val len)
  then show ?case by (simp only: run_callback_devices read_device_name_cb_device)
next
  case (appearance_read st i success att_ecode val len)
  then show ?case by (simp only: run_callback_devices read_appearance_cb_device)
qed

lemma distinct_map_filter_le1:
  "distinct (map f xs) \<Longrightarrow> length (filter (\<lambda>x. f x = y) xs) \<le> 1"
proof (induction xs)
  case Nil
  then show ?case by simp
next
  case (Cons x xs)
  show ?case
  proof (cases "f x = y")
    case True
    then have "\<forall>z \<in> set xs. f z \<noteq> y"
      using Cons.prems by (auto simp: image_iff)
    then have "filter (\<lambda>x. f x = y) xs = []"
      by (simp add: filter_empty_conv)
    with True show ?thesis by simp
  next
    case False
    with Cons show ?thesis by simp
  qed
qed

lemma handler_of_None:
  "handler_of st dev = None \<longleftrightarrow> g_slist_find_custom (devices st) dev cmp_device = []"
  by (simp add: handler_of_def split: list.splits)

lemma probe_twice:
  "handler_of st dev \<noteq> None \<Longrightarrow>
   gap_driver_probe (Btd_service dev) st =
     (- 1, st\<lparr>trace := trace st @ [DBG ''GAP profile probe (%s)'',
                                      ERROR ''Profile probed twice for the same device!'']\<rparr>)"
  by (simp add: gap_driver_probe_def handler_of_None Let_def)

lemma handler_after_probe: "handler_of (snd (gap_driver_probe (Btd_service dev) st)) dev \<noteq> None"
  by (auto simp: handler_of_None probe_devices find_custom_Nil g_new0_gas_def)

text \<open>
  Claim C1. In every state the plugin can reach, the list holds at most one handler
  for a device. A probe for a device that has a handler returns -1 and changes nothing
  but the log: the list and every handler in it stay as they are. So after a probe
  for a device, a second probe for it fails, and the device has exactly one handler.
\<close>

theorem one_handler_per_device:
  assumes "reachable st"
  shows "length (handlers_of st dev) \<le> 1 \<and>
         (handler_of st dev \<noteq> None \<longrightarrow>
            gap_driver_probe (Btd_service dev) st =
              (- 1, st\<lparr>trace := trace st @ [DBG ''GAP profile probe (%s)'',
                              ERROR ''Profile probed twice for the same device!'']\<rparr>)) \<and>
         fst (gap_driver_probe (Btd_service dev) (snd (gap_driver_probe (Btd_service dev) st))) = - 1 \<and>
         devices (snd (gap_driver_probe (Btd_service dev) (snd (gap_driver_probe (Btd_service dev) st)))) =
           devices (snd (gap_driver_probe (Btd_service dev) st)) \<and>
         length (handlers_of (snd (gap_driver_probe (Btd_service dev) st)) dev) = 1"
proof -
  have one: "length (handlers_of st dev) \<le> 1"
    unfolding handlers_of_def
    using reachable_distinct [OF assms] by (rule distinct_map_filter_le1)
  let ?st1 = "snd (gap_driver_probe (Btd_service dev) st)"
  have second: "gap_driver_probe (Btd_service dev) ?st1 =
      (- 1, ?st1\<lparr>trace := trace ?st1 @ [DBG ''GAP profile probe (%s)'',
                              ERROR ''Profile probed twice for the same device!'']\<rparr>)"
    using handler_after_probe by (rule probe_twice)
  have "reachable ?st1"
    using assms by (rule reachable.probe)
  then have "length (handlers_of ?st1 dev) \<le> 1"
    unfolding handlers_of_def
    by (intro distinct_map_filter_le1 reachable_distinct)
  moreover have "handlers_of ?st1 dev \<noteq> []"
    using handler_after_probe [of dev st]
    by (auto simp: handlers_of_def handler_of_None find_custom_Nil filter_empty_conv)
  ultimately have "length (handlers_of ?st1 dev) = 1"
    by (cases "handlers_of ?st1 dev") simp_all
  with one second show ?thesis
    by (simp add: probe_twice)
qed

text \<open>Device 1 probed once after \<open>gap_init\<close>: the second probe returns -1 and the list
  still holds the one handler.\<close>

theorem one_handler_per_device_witness:
  "reachable (snd (gap_driver_probe (Btd_service 1) (snd gap_init))) \<and>
   devices (snd (gap_driver_probe (Btd_service 1) (snd gap_init))) =
     [\<lparr>device = Some 1, db = None, db_id = 0, client = None, attr = None\<rparr>] \<and>
   fst (gap_driver_probe (Btd_service 1) (snd (gap_driver_probe (Btd_service 1) (snd gap_init)))) = - 1 \<and>
   devices (snd (gap_driver_probe (Btd_service 1)
       (snd (gap_driver_probe (Btd_service 1) (snd gap_init))))) =
     [\<lparr>device = Some 1, db = None, db_id = 0, client = None, attr = None\<rparr>]"
proof -
  have r: "reachable (snd gap_init)"
    by (rule reachable.init)
  have r1: "reachable (snd (gap_driver_probe (Btd_service 1) (snd gap_init)))"
    using r by (rule reachable.probe)
  have d: "devices (snd (gap_driver_probe (Btd_service 1) (snd gap_init))) =
             [\<lparr>device = Some 1, db = None, db_id = 0, client = None, attr = None\<rparr>]"
    by code_simp
  show ?thesis
    using r1 d one_handler_per_device [OF r, of 1]
    by simp
qed

end
